theory Spec2Isabelle
  imports Main
begin

section \<open>JavaScript values\<close>

text \<open>
  The values that reach the controller are the values of parsed JSON, the strings of
  a text body, and \<open>undefined\<close>. An array or an object carries the address it lives at,
  since \<open>===\<close> compares arrays and objects by identity and everything else by value.
  Numbers are the integers: the program only tests a number for zero, compares it
  and prints it. A \<open>char\<close> stands for one code unit below 256.
\<close>

datatype json =
    JUndefined
  | JNull
  | JBool bool
  | JNum int
  | JStr string
  | JArr nat "json list"
  | JObj nat "(string \<times> json) list"

text \<open>\<open>Boolean(v)\<close>, and the test that \<open>!v\<close>, \<open>||\<close> and \<open>&&\<close> make.\<close>

fun truthy :: "json \<Rightarrow> bool" where
  "truthy JUndefined = False"
| "truthy JNull = False"
| "truthy (JBool b) = b"
| "truthy (JNum n) = (n \<noteq> 0)"
| "truthy (JStr s) = (s \<noteq> [])"
| "truthy (JArr r xs) = True"
| "truthy (JObj r kvs) = True"

text \<open>The values that \<open>??\<close> and \<open>?.\<close> step over.\<close>

fun nullish :: "json \<Rightarrow> bool" where
  "nullish JUndefined = True"
| "nullish JNull = True"
| "nullish v = False"

text \<open>\<open>a === b\<close>.\<close>

fun strict_eq :: "json \<Rightarrow> json \<Rightarrow> bool" where
  "strict_eq JUndefined JUndefined = True"
| "strict_eq JNull JNull = True"
| "strict_eq (JBool a) (JBool b) = (a = b)"
| "strict_eq (JNum a) (JNum b) = (a = b)"
| "strict_eq (JStr a) (JStr b) = (a = b)"
| "strict_eq (JArr r xs) (JArr r' ys) = (r = r')"
| "strict_eq (JObj r kvs) (JObj r' kvs') = (r = r')"
| "strict_eq a b = False"

text \<open>
  \<open>v.k\<close> for a value that is neither \<open>null\<close> nor \<open>undefined\<close>, and a key \<open>k\<close> that no
  prototype defines (every key the program reads is one): an own property of an
  object, \<open>undefined\<close> otherwise. The keys of an object are distinct, as they are
  once JSON is parsed.
\<close>

fun get_prop :: "json \<Rightarrow> string \<Rightarrow> json" where
  "get_prop (JObj r kvs) k = (case map_of kvs k of None \<Rightarrow> JUndefined | Some v \<Rightarrow> v)"
| "get_prop v k = JUndefined"

text \<open>\<open>v?.k\<close>.\<close>

definition opt_get :: "json \<Rightarrow> string \<Rightarrow> json" where
  "opt_get v k = (if nullish v then JUndefined else get_prop v k)"

text \<open>\<open>a ?? b\<close> and \<open>a || b\<close>.\<close>

definition coalesce :: "json \<Rightarrow> json \<Rightarrow> json" where
  "coalesce a b = (if nullish a then b else a)"

definition js_or :: "json \<Rightarrow> json \<Rightarrow> json" where
  "js_or a b = (if truthy a then a else b)"

fun isArray :: "json \<Rightarrow> bool" where
  "isArray (JArr r xs) = True"
| "isArray v = False"

section \<open>Tasks and their normalization\<close>

record todo =
  todo_id :: json
  title :: json
  completed :: bool
  raw :: json

text \<open>
  \<^verbatim>\<open>
  function normalizeTodo(raw) {
    const id = raw?.id ?? raw?.todo_id ?? raw?._id;
    const title = raw?.title ?? raw?.text ?? "";
    const completed = Boolean(raw?.completed ?? raw?.is_completed ?? raw?.done);
    return { id, title, completed, raw };
  }
  \<close>
  No step of it can throw on a value of \<^typ>\<open>json\<close>: \<open>?.\<close> guards the two values that have
  no properties, and reading a property of any other value returns.
\<close>

definition normalizeTodo :: "json \<Rightarrow> todo" where
  "normalizeTodo r =
     \<lparr> todo_id = coalesce (coalesce (opt_get r ''id'') (opt_get r ''todo_id'')) (opt_get r ''_id''),
       title = coalesce (coalesce (opt_get r ''title'') (opt_get r ''text'')) (JStr ''''),
       completed = truthy (coalesce (coalesce (opt_get r ''completed'') (opt_get r ''is_completed''))
                                    (opt_get r ''done'')),
       raw = r \<rparr>"

section \<open>Printing\<close>

text \<open>
  What a template literal and the \<open>Error\<close> constructor make of a value. An integer
  is printed in decimal, as JavaScript prints the integers below \<open>10^21\<close>.
\<close>

definition digit_char :: "nat \<Rightarrow> char" where
  "digit_char d = ''0123456789'' ! (d mod 10)"

fun show_nat :: "nat \<Rightarrow> string" where
  "show_nat n = (if n < 10 then [digit_char n] else show_nat (n div 10) @ [digit_char (n mod 10)])"

declare show_nat.simps [simp del]

definition show_int :: "int \<Rightarrow> string" where
  "show_int i = (if i < 0 then CHR ''-'' # show_nat (nat (- i)) else show_nat (nat i))"

fun join_comma :: "string list \<Rightarrow> string" where
  "join_comma [] = []"
| "join_comma [x] = x"
| "join_comma (x # y # ys) = x @ '','' @ join_comma (y # ys)"

text \<open>\<open>String(v)\<close>; an array prints its elements joined by commas, \<open>null\<close> and
  \<open>undefined\<close> among them as nothing.\<close>

fun js_to_string :: "json \<Rightarrow> string" where
  "js_to_string JUndefined = ''undefined''"
| "js_to_string JNull = ''null''"
| "js_to_string (JBool b) = (if b then ''true'' else ''false'')"
| "js_to_string (JNum n) = show_int n"
| "js_to_string (JStr s) = s"
| "js_to_string (JArr r xs) = join_comma (map (\<lambda>x. if nullish x then [] else js_to_string x) xs)"
| "js_to_string (JObj r kvs) = ''[object Object]''"

section \<open>Thrown values\<close>

text \<open>
  An \<open>Error\<close> (or \<open>DOMException\<close>) object with the properties the program reads and
  writes; \<open>status\<close> and \<open>payload\<close> are absent unless \<open>fetchJson\<close> sets them. A promise
  may also reject with a plain value.
\<close>

record exn =
  name :: string
  message :: string
  status :: "int option"
  payload :: "json option"

datatype thrown = TErr exn | TVal json

definition new_Error :: "string \<Rightarrow> exn" where
  "new_Error m = \<lparr> name = ''Error'', message = m, status = None, payload = None \<rparr>"

text \<open>The exception of a signal that was aborted with no reason given.\<close>

definition AbortError :: thrown where
  "AbortError = TErr \<lparr> name = ''AbortError'', message = ''signal is aborted without reason'',
                        status = None, payload = None \<rparr>"

text \<open>What calling \<open>arr.map\<close> throws when \<open>arr\<close> has no such method.\<close>

definition TypeError_map :: thrown where
  "TypeError_map = TErr \<lparr> name = ''TypeError'', message = ''arr.map is not a function'',
                           status = None, payload = None \<rparr>"

text \<open>\<open>e?.name\<close>.\<close>

fun thrown_name :: "thrown \<Rightarrow> json" where
  "thrown_name (TErr e) = JStr (name e)"
| "thrown_name (TVal v) = opt_get v ''name''"

text \<open>
  \<^verbatim>\<open>
  function toErrorMessage(e) {
    if (!e) return "Unknown error";
    if (typeof e === "string") return e;
    return e.message || "Something went wrong";
  }
  \<close>
\<close>

fun toErrorMessage :: "thrown \<Rightarrow> json" where
  "toErrorMessage (TErr e) = js_or (JStr (message e)) (JStr ''Something went wrong'')"
| "toErrorMessage (TVal v) =
     (if \<not> truthy v then JStr ''Unknown error''
      else case v of JStr s \<Rightarrow> JStr s
           | _ \<Rightarrow> js_or (get_prop v ''message'') (JStr ''Something went wrong''))"

section \<open>The request client\<close>

definition DEFAULT_TIMEOUT_MS :: nat where
  "DEFAULT_TIMEOUT_MS = 15000"

text \<open>
  A response as \<open>fetchJson\<close> reads it: the status, the \<open>content-type\<close> header
  (\<open>headers.get\<close> gives \<open>null\<close> when there is none), and what \<open>res.text()\<close> and
  \<open>res.json()\<close> settle with when the body is read to its end.
\<close>

record response =
  res_status :: int
  content_type :: "string option"
  text_result :: "thrown + string"
  json_result :: "thrown + json"

text \<open>\<open>res.ok\<close>.\<close>

definition ok :: "response \<Rightarrow> bool" where
  "ok res = (200 \<le> res_status res \<and> res_status res \<le> 299)"

text \<open>
  What the network does with one request, on the clock that starts when \<open>fetch\<close> is
  called: the exchange fails after some milliseconds, or the head of a response
  arrives after \<open>t1\<close> milliseconds and the end of its body after \<open>t2\<close>.
\<close>

datatype network =
    Fails nat thrown
  | Answers nat response nat

text \<open>
  \<open>fetchJson\<close> arms a timer that aborts the request's signal after
  \<open>DEFAULT_TIMEOUT_MS\<close>, and disarms it when it leaves. None of the four operations
  passes a signal of its own, so the signal of the request is the timer's. An aborted
  signal rejects the pending promise of the exchange, \<open>fetch\<close> or the reading of the
  body, with \<open>AbortError\<close>. An event that falls on the timer's millisecond is taken to
  come after it.
\<close>

definition await_fetch :: "network \<Rightarrow> thrown + response" where
  "await_fetch net =
     (case net of
        Fails t e \<Rightarrow> if t < DEFAULT_TIMEOUT_MS then Inl e else Inl AbortError
      | Answers t1 res t2 \<Rightarrow> if t1 < DEFAULT_TIMEOUT_MS then Inr res else Inl AbortError)"

definition await_json :: "network \<Rightarrow> thrown + json" where
  "await_json net =
     (case net of
        Fails t e \<Rightarrow> Inl e
      | Answers t1 res t2 \<Rightarrow> if t2 < DEFAULT_TIMEOUT_MS then json_result res else Inl AbortError)"

definition await_text :: "network \<Rightarrow> thrown + string" where
  "await_text net =
     (case net of
        Fails t e \<Rightarrow> Inl e
      | Answers t1 res t2 \<Rightarrow> if t2 < DEFAULT_TIMEOUT_MS then text_result res else Inl AbortError)"

text \<open>\<open>s.includes(sub)\<close>.\<close>

fun starts_with :: "string \<Rightarrow> string \<Rightarrow> bool" where
  "starts_with s [] = True"
| "starts_with [] (c # cs) = False"
| "starts_with (x # xs) (c # cs) = (x = c \<and> starts_with xs cs)"

fun str_includes :: "string \<Rightarrow> string \<Rightarrow> bool" where
  "str_includes [] sub = (sub = [])"
| "str_includes (x # xs) sub = (starts_with (x # xs) sub \<or> str_includes xs sub)"

fun typeof :: "json \<Rightarrow> string" where
  "typeof JUndefined = ''undefined''"
| "typeof JNull = ''object''"
| "typeof (JBool b) = ''boolean''"
| "typeof (JNum n) = ''number''"
| "typeof (JStr s) = ''string''"
| "typeof (JArr r xs) = ''object''"
| "typeof (JObj r kvs) = ''object''"

text \<open>\<open>a && b\<close>.\<close>

definition js_and :: "json \<Rightarrow> json \<Rightarrow> json" where
  "js_and a b = (if truthy a then b else a)"

text \<open>
  \<^verbatim>\<open>
  const message =
    (payload && typeof payload === "object" && payload.detail) ||
    (typeof payload === "string" && payload) ||
    `Request failed with status ${res.status}`;
  \<close>
\<close>

definition failure_message :: "json \<Rightarrow> int \<Rightarrow> json" where
  "failure_message p st =
     js_or (js_or (js_and (js_and p (JBool (typeof p = ''object''))) (get_prop p ''detail''))
                  (js_and (JBool (typeof p = ''string'')) p))
           (JStr (''Request failed with status '' @ show_int st))"

text \<open>
  \<^verbatim>\<open>
  } catch (e) {
    if (e?.name === "AbortError") {
      throw new Error("Request timed out. Please try again.");
    }
    throw e;
  }
  \<close>
\<close>

definition rethrow :: "thrown \<Rightarrow> thrown" where
  "rethrow e =
     (if strict_eq (thrown_name e) (JStr ''AbortError'')
      then TErr (new_Error ''Request timed out. Please try again.'')
      else e)"

text \<open>
  \<open>fetchJson\<close>, from the call of \<open>fetch\<close> on; \<open>Inl\<close> is the value it throws. The
  request itself (method, path, body) does not enter what it does with the answer.
  \<^verbatim>\<open>
  const res = await fetch(url, {... signal: signal ?? controller.signal});
  const contentType = res.headers.get("content-type") || "";
  const isJson = contentType.includes("application/json");
  const payload = isJson ? await res.json().catch(() => null) : await res.text();
  if (!res.ok) {
    const err = new Error(message);
    err.status = res.status;
    err.payload = payload;
    throw err;
  }
  return payload;
  \<close>
\<close>

definition fetchJson :: "network \<Rightarrow> thrown + json" where
  "fetchJson net =
     (case await_fetch net of
        Inl e \<Rightarrow> Inl (rethrow e)
      | Inr res \<Rightarrow>
          let contentType = (case content_type res of None \<Rightarrow> [] | Some c \<Rightarrow> c);
              isJson = str_includes contentType ''application/json''
          in case (if isJson
                   then (case await_json net of Inl e \<Rightarrow> Inr JNull | Inr v \<Rightarrow> Inr v)
                   else (case await_text net of Inl e \<Rightarrow> Inl e | Inr t \<Rightarrow> Inr (JStr t))) of
               Inl e \<Rightarrow> Inl (rethrow e)
             | Inr p \<Rightarrow>
                 if \<not> ok res
                 then Inl (rethrow (TErr ((new_Error (js_to_string (failure_message p (res_status res))))
                                           \<lparr> status := Some (res_status res), payload := Some p \<rparr>)))
                 else Inr p)"

text \<open>\<open>listTodos\<close> returns what \<open>fetchJson("/todos")\<close> returns.\<close>

definition listTodos :: "network \<Rightarrow> thrown + json" where
  "listTodos net = fetchJson net"

section \<open>The controller\<close>

text \<open>
  The state of \<open>App\<close>. \<open>savingIds\<close> is a \<open>Set\<close>, kept here as the list of its members
  in insertion order; \<open>error\<close> is \<open>null\<close> when the banner is hidden.
\<close>

record state =
  todos :: "todo list"
  initialLoading :: bool
  savingIds :: "json list"
  error :: json
  newTitle :: string
  editingId :: json
  editingTitle :: json

text \<open>The state of the first render: the initial values given to \<open>useState\<close>.\<close>

definition initial_state :: state where
  "initial_state =
     \<lparr> todos = [], initialLoading = True, savingIds = [], error = JNull, newTitle = [],
       editingId = JNull, editingTitle = JStr [] \<rparr>"

text \<open>The requests an operation sends, in the order it sends them.\<close>

datatype call =
    GET_todos
  | POST_todos string
  | PUT_todos json "(string \<times> json) list"
  | DELETE_todos json

text \<open>What an awaited call of the request client settles with: \<open>Inl\<close> is a rejection.\<close>

type_synonym outcome = "thrown + json"

text \<open>\<open>s.trim()\<close>, on the white space and line terminators below 256.\<close>

definition is_space :: "char \<Rightarrow> bool" where
  "is_space c = (c \<in> set [CHR 0x09, CHR 0x0A, CHR 0x0B, CHR 0x0C, CHR 0x0D, CHR 0x20, CHR 0xA0])"

definition trim :: "string \<Rightarrow> string" where
  "trim s = rev (dropWhile is_space (rev (dropWhile is_space s)))"

text \<open>The filter of \<open>refresh\<close>: \<open>t.id !== undefined && t.id !== null\<close>.\<close>

definition has_id :: "todo \<Rightarrow> bool" where
  "has_id t = (\<not> strict_eq (todo_id t) JUndefined \<and> \<not> strict_eq (todo_id t) JNull)"

text \<open>
  \<^verbatim>\<open>
  async function refresh() {
    setError(null);
    try {
      const res = await listTodos();
      const arr = Array.isArray(res) ? res : res?.items || res?.todos || [];
      setTodos(arr.map(normalizeTodo).filter((t) => t.id !== undefined && t.id !== null));
    } catch (e) {
      setError(toErrorMessage(e));
    } finally {
      setInitialLoading(false);
    }
  }
  \<close>
  \<open>refresh_begin\<close> is the part before the \<open>await\<close>, \<open>refresh_end\<close> the part after it.
  The array literal is a new object; it is read once and dropped, so its address is
  of no account.
\<close>

definition refresh_begin :: "state \<Rightarrow> state" where
  "refresh_begin s = s\<lparr> error := JNull \<rparr>"

definition refresh_end :: "state \<Rightarrow> outcome \<Rightarrow> state" where
  "refresh_end s out =
     (case out of
        Inl e \<Rightarrow> s\<lparr> error := toErrorMessage e, initialLoading := False \<rparr>
      | Inr res \<Rightarrow>
          let arr = (if isArray res then res
                     else js_or (js_or (opt_get res ''items'') (opt_get res ''todos'')) (JArr 0 []))
          in case arr of
               JArr r xs \<Rightarrow> s\<lparr> todos := filter has_id (map normalizeTodo xs), initialLoading := False \<rparr>
             | _ \<Rightarrow> s\<lparr> error := toErrorMessage TypeError_map, initialLoading := False \<rparr>)"

definition refresh :: "state \<Rightarrow> outcome \<Rightarrow> state" where
  "refresh s out = refresh_end (refresh_begin s) out"

text \<open>
  \<^verbatim>\<open>
  function setSaving(id, isSaving) {
    setSavingIds((prev) => {
      const next = new Set(prev);
      if (isSaving) next.add(id);
      else next.delete(id);
      return next;
    });
  }
  \<close>
\<close>

definition set_add :: "json \<Rightarrow> json list \<Rightarrow> json list" where
  "set_add v xs = (if list_ex (\<lambda>x. strict_eq x v) xs then xs else xs @ [v])"

definition set_delete :: "json \<Rightarrow> json list \<Rightarrow> json list" where
  "set_delete v xs = filter (\<lambda>x. \<not> strict_eq x v) xs"

definition setSaving :: "json \<Rightarrow> bool \<Rightarrow> state \<Rightarrow> state" where
  "setSaving i isSaving s =
     s\<lparr> savingIds := (if isSaving then set_add i (savingIds s) else set_delete i (savingIds s)) \<rparr>"

text \<open>
  \<^verbatim>\<open>
  async function handleAdd(e) {
    e.preventDefault();
    const title = newTitle.trim();
    if (!title) return;

    setError(null);
    try {
      const tempId = `temp-${Date.now()}`;
      const optimistic = { id: tempId, title, completed: false, raw: null };
      setTodos((prev) => [optimistic, ...prev]);
      setNewTitle("");

      const created = await createTodo({ title });
      const normalized = normalizeTodo(created);

      setTodos((prev) =>
        prev.map((t) => (t.id === tempId ? normalized : t))
      );
      inputRef.current?.focus();
    } catch (e2) {
      setError(toErrorMessage(e2));
      refresh();
    }
  }
  \<close>
  \<open>now\<close> is what \<open>Date.now()\<close> returns. \<open>handleAdd_begin\<close> runs up to the \<open>await\<close>;
  \<open>handleAdd_created\<close> is the update that follows a created record, on whatever
  list is current by then. \<open>handleAdd\<close> is the whole operation with nothing else in
  between: the state it leaves and the requests it has sent.
\<close>

definition tempId :: "nat \<Rightarrow> json" where
  "tempId now = JStr (''temp-'' @ show_nat now)"

definition optimistic :: "string \<Rightarrow> nat \<Rightarrow> todo" where
  "optimistic t now = \<lparr> todo_id = tempId now, title = JStr t, completed = False, raw = JNull \<rparr>"

definition handleAdd_begin :: "state \<Rightarrow> nat \<Rightarrow> state" where
  "handleAdd_begin s now =
     s\<lparr> error := JNull, todos := optimistic (trim (newTitle s)) now # todos s, newTitle := [] \<rparr>"

definition handleAdd_created :: "state \<Rightarrow> nat \<Rightarrow> json \<Rightarrow> state" where
  "handleAdd_created s now created =
     s\<lparr> todos := map (\<lambda>t. if strict_eq (todo_id t) (tempId now) then normalizeTodo created else t)
                      (todos s) \<rparr>"

definition handleAdd :: "state \<Rightarrow> nat \<Rightarrow> outcome \<Rightarrow> outcome \<Rightarrow> state \<times> call list" where
  "handleAdd s now create_out list_out =
     (let t = trim (newTitle s) in
      if t = [] then (s, [])
      else
        let s1 = handleAdd_begin s now in
        case create_out of
          Inr created \<Rightarrow> (handleAdd_created s1 now created, [POST_todos t])
        | Inl e2 \<Rightarrow> (refresh (s1\<lparr> error := toErrorMessage e2 \<rparr>) list_out, [POST_todos t, GET_todos]))"

text \<open>
  \<^verbatim>\<open>
  async function handleToggle(todo) {
    if (!todo?.id) return;
    setError(null);
    setSaving(todo.id, true);

    const nextCompleted = !todo.completed;

    setTodos((prev) =>
      prev.map((t) => (t.id === todo.id ? { ...t, completed: nextCompleted } : t))
    );

    try {
      await updateTodo(todo.id, { completed: nextCompleted });
    } catch (e) {
      setError(toErrorMessage(e));
      await refresh();
    } finally {
      setSaving(todo.id, false);
    }
  }
  \<close>
\<close>

definition handleToggle_begin :: "state \<Rightarrow> todo \<Rightarrow> state" where
  "handleToggle_begin s todo =
     (let s1 = setSaving (todo_id todo) True (s\<lparr> error := JNull \<rparr>);
          nextCompleted = (\<not> completed todo)
      in s1\<lparr> todos := map (\<lambda>t. if strict_eq (todo_id t) (todo_id todo)
                                then t\<lparr> completed := nextCompleted \<rparr> else t) (todos s1) \<rparr>)"

definition handleToggle :: "state \<Rightarrow> todo \<Rightarrow> outcome \<Rightarrow> outcome \<Rightarrow> state \<times> call list" where
  "handleToggle s todo update_out list_out =
     (if \<not> truthy (todo_id todo) then (s, [])
      else
        let s1 = handleToggle_begin s todo;
            put = PUT_todos (todo_id todo) [(''completed'', JBool (\<not> completed todo))]
        in case update_out of
             Inr u \<Rightarrow> (setSaving (todo_id todo) False s1, [put])
           | Inl e \<Rightarrow> (setSaving (todo_id todo) False (refresh (s1\<lparr> error := toErrorMessage e \<rparr>) list_out),
                       [put, GET_todos]))"

text \<open>
  \<^verbatim>\<open>
  function startEdit(todo) {
    setEditingId(todo.id);
    setEditingTitle(todo.title);
  }
  function cancelEdit() {
    setEditingId(null);
    setEditingTitle("");
  }
  \<close>
\<close>

definition startEdit :: "state \<Rightarrow> todo \<Rightarrow> state" where
  "startEdit s todo = s\<lparr> editingId := todo_id todo, editingTitle := title todo \<rparr>"

definition cancelEdit :: "state \<Rightarrow> state" where
  "cancelEdit s = s\<lparr> editingId := JNull, editingTitle := JStr [] \<rparr>"

text \<open>
  \<^verbatim>\<open>
  async function saveEdit(todo) {
    const title = editingTitle.trim();
    if (!title) return;

    setError(null);
    setSaving(todo.id, true);

    setTodos((prev) => prev.map((t) => (t.id === todo.id ? { ...t, title } : t)));

    try {
      await updateTodo(todo.id, { title });
      cancelEdit();
    } catch (e) {
      setError(toErrorMessage(e));
      await refresh();
    } finally {
      setSaving(todo.id, false);
    }
  }
  \<close>
  \<open>editingTitle\<close> holds what \<open>startEdit\<close> or the input field put there. When it is not
  a string, \<open>editingTitle.trim()\<close> throws before anything else is done, outside every
  \<open>try\<close>: that is the \<open>Inl\<close> of the result.
\<close>

definition TypeError_trim :: thrown where
  "TypeError_trim = TErr \<lparr> name = ''TypeError'', message = ''editingTitle.trim is not a function'',
                            status = None, payload = None \<rparr>"

definition saveEdit_begin :: "state \<Rightarrow> todo \<Rightarrow> string \<Rightarrow> state" where
  "saveEdit_begin s todo t =
     (let s1 = setSaving (todo_id todo) True (s\<lparr> error := JNull \<rparr>)
      in s1\<lparr> todos := map (\<lambda>x. if strict_eq (todo_id x) (todo_id todo)
                                then x\<lparr> title := JStr t \<rparr> else x) (todos s1) \<rparr>)"

definition saveEdit :: "state \<Rightarrow> todo \<Rightarrow> outcome \<Rightarrow> outcome \<Rightarrow> thrown + state \<times> call list" where
  "saveEdit s todo update_out list_out =
     (case editingTitle s of
        JStr et \<Rightarrow>
          let t = trim et in
          if t = [] then Inr (s, [])
          else
            let s1 = saveEdit_begin s todo t;
                put = PUT_todos (todo_id todo) [(''title'', JStr t)]
            in (case update_out of
                  Inr u \<Rightarrow> Inr (setSaving (todo_id todo) False (cancelEdit s1), [put])
                | Inl e \<Rightarrow> Inr (setSaving (todo_id todo) False
                                   (refresh (s1\<lparr> error := toErrorMessage e \<rparr>) list_out),
                                 [put, GET_todos]))
      | _ \<Rightarrow> Inl TypeError_trim)"

text \<open>
  \<^verbatim>\<open>
  async function handleDelete(todo) {
    if (!todo?.id) return;
    setError(null);
    setSaving(todo.id, true);

    const before = todos;

    setTodos((prev) => prev.filter((t) => t.id !== todo.id));

    try {
      await deleteTodo(todo.id);
    } catch (e) {
      setError(toErrorMessage(e));
      setTodos(before);
    } finally {
      setSaving(todo.id, false);
    }
  }
  \<close>
  \<open>before\<close> is the list of the render that made this handler: with no other operation
  in between, the list of the state the operation starts from.
\<close>

definition handleDelete_begin :: "state \<Rightarrow> todo \<Rightarrow> state" where
  "handleDelete_begin s todo =
     (let s1 = setSaving (todo_id todo) True (s\<lparr> error := JNull \<rparr>)
      in s1\<lparr> todos := filter (\<lambda>t. \<not> strict_eq (todo_id t) (todo_id todo)) (todos s1) \<rparr>)"

definition handleDelete :: "state \<Rightarrow> todo \<Rightarrow> outcome \<Rightarrow> state \<times> call list" where
  "handleDelete s todo delete_out =
     (if \<not> truthy (todo_id todo) then (s, [])
      else
        let before = todos s;
            s1 = handleDelete_begin s todo
        in case delete_out of
             Inr d \<Rightarrow> (setSaving (todo_id todo) False s1, [DELETE_todos (todo_id todo)])
           | Inl e \<Rightarrow> (setSaving (todo_id todo) False (s1\<lparr> error := toErrorMessage e, todos := before \<rparr>),
                       [DELETE_todos (todo_id todo)]))"

section \<open>Sample data\<close>

text \<open>
  Three records as a server sends them, the tasks they normalize to, and the state
  after the first \<open>refresh\<close> has listed them.
\<close>

definition rec1 :: json where
  "rec1 = JObj 11 [(''id'', JNum 1), (''title'', JStr ''a''), (''completed'', JBool False)]"
definition rec2 :: json where
  "rec2 = JObj 12 [(''id'', JNum 2), (''title'', JStr ''b''), (''completed'', JBool True)]"
definition rec3 :: json where
  "rec3 = JObj 13 [(''id'', JNum 3), (''title'', JStr ''c''), (''completed'', JBool False)]"
definition task1 :: todo where
  "task1 = \<lparr> todo_id = JNum 1, title = JStr ''a'', completed = False, raw = rec1 \<rparr>"
definition task2 :: todo where
  "task2 = \<lparr> todo_id = JNum 2, title = JStr ''b'', completed = True, raw = rec2 \<rparr>"
definition task3 :: todo where
  "task3 = \<lparr> todo_id = JNum 3, title = JStr ''c'', completed = False, raw = rec3 \<rparr>"
definition loaded :: state where
  "loaded = initial_state \<lparr> todos := [task1, task2, task3], initialLoading := False \<rparr>"

text \<open>
  A record with the identifier 0 and the state that lists it; a response that
  carries the three records as JSON; the error of a request answered with status 500
  and an empty text body.
\<close>

definition rec0 :: json where
  "rec0 = JObj 14 [(''id'', JNum 0), (''title'', JStr ''z''), (''completed'', JBool False)]"
definition task0 :: todo where
  "task0 = \<lparr> todo_id = JNum 0, title = JStr ''z'', completed = False, raw = rec0 \<rparr>"
definition listed0 :: state where
  "listed0 = initial_state \<lparr> todos := [task0], initialLoading := False \<rparr>"
definition list_response :: "int \<Rightarrow> response" where
  "list_response st =
     \<lparr> res_status = st, content_type = Some ''application/json'',
       text_result = Inr ''[{\"id\":1,\"title\":\"a\",\"completed\":false},{\"id\":2,\"title\":\"b\",\"completed\":true},{\"id\":3,\"title\":\"c\",\"completed\":false}]'',
       json_result = Inr (JArr 10 [rec1, rec2, rec3]) \<rparr>"
definition error500 :: thrown where
  "error500 = TErr \<lparr> name = ''Error'', message = ''Request failed with status 500'',
                      status = Some 500, payload = Some (JStr []) \<rparr>"

text \<open>
  A response that carries the three records under \<open>data\<close>, a response with a text
  body, a record whose identifier is under \<open>todo_id\<close> and that has nothing else, and
  a record with an \<open>id\<close> and a \<open>text\<close>.
\<close>

definition data_response :: response where
  "data_response =
     \<lparr> res_status = 200, content_type = Some ''application/json; charset=utf-8'',
       text_result = Inr ''{\"data\":[{\"id\":1,\"title\":\"a\",\"completed\":false},{\"id\":2,\"title\":\"b\",\"completed\":true},{\"id\":3,\"title\":\"c\",\"completed\":false}]}'',
       json_result = Inr (JObj 17 [(''data'', JArr 10 [rec1, rec2, rec3])]) \<rparr>"

definition text_response :: response where
  "text_response =
     \<lparr> res_status = 200, content_type = Some ''text/plain'', text_result = Inr ''ok'',
       json_result = Inl (TErr \<lparr> name = ''SyntaxError'', message = ''Unexpected token o in JSON'',
                                 status = None, payload = None \<rparr>) \<rparr>"

definition rec_alt :: json where
  "rec_alt = JObj 22 [(''todo_id'', JNum 7)]"

definition rec_text :: json where
  "rec_text = JObj 21 [(''id'', JNum 1), (''text'', JStr ''hello'')]"

section \<open>Properties\<close>

subsection \<open>Basic facts\<close>

lemma nullish_iff: "nullish v \<longleftrightarrow> v = JUndefined \<or> v = JNull"
  by (cases v) simp_all

lemma strict_eq_refl [simp]: "strict_eq v v"
  by (cases v) simp_all

lemma has_id_iff: "has_id t \<longleftrightarrow> \<not> nullish (todo_id t)"
  by (cases "todo_id t") (simp_all add: has_id_def)

lemma refresh_forgets_error: "refresh (s\<lparr> error := m \<rparr>) out = refresh s out"
  by (simp add: refresh_def refresh_begin_def)

lemma todos_setSaving [simp]: "todos (setSaving i b s) = todos s"
  by (simp add: setSaving_def)

lemma error_setSaving [simp]: "error (setSaving i b s) = error s"
  by (simp add: setSaving_def)

lemma normalize_samples:
  "normalizeTodo rec1 = task1" "normalizeTodo rec2 = task2" "normalizeTodo rec3 = task3"
  by (simp_all add: normalizeTodo_def rec1_def rec2_def rec3_def task1_def task2_def task3_def
      opt_get_def coalesce_def)

lemma has_id_samples: "has_id task1" "has_id task2" "has_id task3"
  by (simp_all add: has_id_def task1_def task2_def task3_def)

lemma refresh_array:
  "refresh s (Inr (JArr a xs))
     = s\<lparr> error := JNull, todos := filter has_id (map normalizeTodo xs), initialLoading := False \<rparr>"
  by (simp add: refresh_def refresh_begin_def refresh_end_def)

lemma loaded_by_refresh: "refresh initial_state (Inr (JArr 10 [rec1, rec2, rec3])) = loaded"
  by (simp add: refresh_array normalize_samples has_id_samples loaded_def initial_state_def)

lemma is_json: "str_includes ''application/json'' ''application/json''"
  by simp

lemma data_in: "str_includes ''application/json; charset=utf-8'' ''application/json''"
  by simp

lemma show_500: "show_int 500 = ''500''"
  by (simp add: show_int_def show_nat.simps digit_char_def)

lemma ids: "todo_id task1 = JNum 1" "todo_id task2 = JNum 2" "todo_id task3 = JNum 3"
  "todo_id task0 = JNum 0" "completed task1 = False"
  by (simp_all add: task1_def task2_def task3_def task0_def)

lemma loaded_fields: "todos loaded = [task1, task2, task3]" "error loaded = JNull"
  "savingIds loaded = []" "initialLoading loaded = False" "newTitle loaded = []"
  by (simp_all add: loaded_def initial_state_def)


lemma refresh_listed:
  "refresh s (Inr (JArr 10 [rec1, rec2, rec3]))
     = s\<lparr> error := JNull, todos := [task1, task2, task3], initialLoading := False \<rparr>"
  by (simp add: refresh_array normalize_samples has_id_samples)

lemma trim_samples: "trim ''Buy milk'' = ''Buy milk''" "trim ''x'' = ''x''"
  by (simp_all add: trim_def is_space_def)

subsection \<open>Normalization\<close>

text \<open>
  Against claim C3 as it is written: a record with \<open>completed: false\<close> and
  \<open>done: true\<close> normalizes to a task that is not completed, since \<open>??\<close> stops at
  \<open>false\<close>, which is neither \<open>null\<close> nor \<open>undefined\<close>.
\<close>

theorem normalizeTodo_completed_false_done_true:
  "\<not> completed (normalizeTodo (JObj 1 [(''completed'', JBool False), (''done'', JBool True)]))"
  by (simp add: normalizeTodo_def coalesce_def opt_get_def)

text \<open>
  Claim C3, amended: the identifier is the first of \<open>id\<close>, \<open>todo_id\<close>, \<open>_id\<close> that is
  present (neither \<open>null\<close> nor \<open>undefined\<close>), the title the first of \<open>title\<close>, \<open>text\<close>
  that is present and the empty string when neither is, and the completion flag is
  the truthiness of the first of \<open>completed\<close>, \<open>is_completed\<close>, \<open>done\<close> that is present:
  a later field is read only when every earlier one is absent.
\<close>

theorem normalizeTodo_first_present:
  "(\<not> nullish (opt_get r ''id'') \<longrightarrow> todo_id (normalizeTodo r) = opt_get r ''id'')
   \<and> (nullish (opt_get r ''id'') \<and> \<not> nullish (opt_get r ''todo_id'')
        \<longrightarrow> todo_id (normalizeTodo r) = opt_get r ''todo_id'')
   \<and> (nullish (opt_get r ''id'') \<and> nullish (opt_get r ''todo_id'')
        \<longrightarrow> todo_id (normalizeTodo r) = opt_get r ''_id'')
   \<and> (\<not> nullish (opt_get r ''title'') \<longrightarrow> title (normalizeTodo r) = opt_get r ''title'')
   \<and> (nullish (opt_get r ''title'') \<and> \<not> nullish (opt_get r ''text'')
        \<longrightarrow> title (normalizeTodo r) = opt_get r ''text'')
   \<and> (nullish (opt_get r ''title'') \<and> nullish (opt_get r ''text'')
        \<longrightarrow> title (normalizeTodo r) = JStr [])
   \<and> (\<not> nullish (opt_get r ''completed'')
        \<longrightarrow> completed (normalizeTodo r) = truthy (opt_get r ''completed''))
   \<and> (nullish (opt_get r ''completed'') \<and> \<not> nullish (opt_get r ''is_completed'')
        \<longrightarrow> completed (normalizeTodo r) = truthy (opt_get r ''is_completed''))
   \<and> (nullish (opt_get r ''completed'') \<and> nullish (opt_get r ''is_completed'')
        \<longrightarrow> completed (normalizeTodo r) = truthy (opt_get r ''done''))"
  by (simp add: normalizeTodo_def coalesce_def)

text \<open>The amended claim at four records, one for each place a field can be found.\<close>

theorem normalizeTodo_first_present_witness:
  "\<not> nullish (opt_get (JObj 1 [(''completed'', JBool False), (''done'', JBool True)]) ''completed'')
   \<and> completed (normalizeTodo (JObj 1 [(''completed'', JBool False), (''done'', JBool True)])) = False
   \<and> nullish (opt_get (JObj 2 [(''todo_id'', JNum 7), (''text'', JStr ''a''), (''is_completed'', JNum 1)]) ''id'')
   \<and> todo_id (normalizeTodo (JObj 2 [(''todo_id'', JNum 7), (''text'', JStr ''a''), (''is_completed'', JNum 1)])) = JNum 7
   \<and> title (normalizeTodo (JObj 2 [(''todo_id'', JNum 7), (''text'', JStr ''a''), (''is_completed'', JNum 1)])) = JStr ''a''
   \<and> completed (normalizeTodo (JObj 2 [(''todo_id'', JNum 7), (''text'', JStr ''a''), (''is_completed'', JNum 1)])) = True
   \<and> todo_id (normalizeTodo (JObj 3 [(''_id'', JStr ''x''), (''done'', JBool True)])) = JStr ''x''
   \<and> title (normalizeTodo (JObj 3 [(''_id'', JStr ''x''), (''done'', JBool True)])) = JStr []
   \<and> completed (normalizeTodo (JObj 3 [(''_id'', JStr ''x''), (''done'', JBool True)])) = True
   \<and> todo_id (normalizeTodo (JObj 4 [(''id'', JNum 0), (''title'', JStr ''t'')])) = JNum 0
   \<and> title (normalizeTodo (JObj 4 [(''id'', JNum 0), (''title'', JStr ''t'')])) = JStr ''t''"
  using normalizeTodo_first_present [of "JObj 1 [(''completed'', JBool False), (''done'', JBool True)]"]
        normalizeTodo_first_present [of "JObj 2 [(''todo_id'', JNum 7), (''text'', JStr ''a''), (''is_completed'', JNum 1)]"]
        normalizeTodo_first_present [of "JObj 3 [(''_id'', JStr ''x''), (''done'', JBool True)]"]
        normalizeTodo_first_present [of "JObj 4 [(''id'', JNum 0), (''title'', JStr ''t'')]"]
  by (simp add: opt_get_def)

text \<open>
  Against claim C10 as it is written: a record with an \<open>id\<close> and a \<open>text\<close> has no
  \<open>title\<close> field, and after \<open>refresh\<close> it is listed with its \<open>text\<close> for a title, not
  with the empty title.
\<close>

theorem record_with_text_is_shown_with_it:
  "nullish (opt_get rec_text ''title'')
   \<and> todos (refresh initial_state (Inr (JArr 10 [rec_text])))
       = [\<lparr> todo_id = JNum 1, title = JStr ''hello'', completed = False, raw = rec_text \<rparr>]
   \<and> error (refresh initial_state (Inr (JArr 10 [rec_text]))) = JNull"
proof -
  have n: "normalizeTodo rec_text
      = \<lparr> todo_id = JNum 1, title = JStr ''hello'', completed = False, raw = rec_text \<rparr>"
    by (simp add: normalizeTodo_def rec_text_def opt_get_def coalesce_def)
  have h: "has_id \<lparr> todo_id = JNum 1, title = JStr ''hello'', completed = False, raw = rec_text \<rparr>"
    by (simp add: has_id_def)
  have t: "nullish (opt_get rec_text ''title'')"
    by (simp add: rec_text_def opt_get_def)
  show ?thesis
    by (simp add: refresh_array n h t)
qed

text \<open>
  Claim C10, amended: normalization returns a task for every input, for \<open>null\<close> and
  \<open>undefined\<close> too, and keeps the input as \<open>raw\<close>. Without \<open>title\<close> and \<open>text\<close> the
  title is the empty string, and without \<open>title\<close> alone it is the \<open>text\<close>; without
  \<open>completed\<close>, \<open>is_completed\<close> and \<open>done\<close> the task is not completed. A record with
  none of \<open>id\<close>, \<open>todo_id\<close>, \<open>_id\<close> normalizes to a task without identifier, which
  is not in the list after \<open>refresh\<close>; a record of a listed array with one of the
  three present normalizes to a task with an identifier, which is in the list
  after \<open>refresh\<close>, whatever its other fields, and no error is shown.
\<close>

theorem normalizeTodo_total:
  "normalizeTodo JNull = \<lparr> todo_id = JUndefined, title = JStr [], completed = False, raw = JNull \<rparr>
   \<and> normalizeTodo JUndefined
       = \<lparr> todo_id = JUndefined, title = JStr [], completed = False, raw = JUndefined \<rparr>
   \<and> raw (normalizeTodo r) = r
   \<and> (nullish (opt_get r ''title'') \<and> nullish (opt_get r ''text'')
        \<longrightarrow> title (normalizeTodo r) = JStr [])
   \<and> (nullish (opt_get r ''title'') \<and> \<not> nullish (opt_get r ''text'')
        \<longrightarrow> title (normalizeTodo r) = opt_get r ''text'')
   \<and> (nullish (opt_get r ''completed'') \<and> nullish (opt_get r ''is_completed'')
          \<and> nullish (opt_get r ''done'')
        \<longrightarrow> \<not> completed (normalizeTodo r))
   \<and> (nullish (opt_get r ''id'') \<and> nullish (opt_get r ''todo_id'') \<and> nullish (opt_get r ''_id'')
        \<longrightarrow> nullish (todo_id (normalizeTodo r))
            \<and> normalizeTodo r \<notin> set (todos (refresh s (Inr (JArr a xs)))))
   \<and> (r \<in> set xs
          \<and> (\<not> nullish (opt_get r ''id'') \<or> \<not> nullish (opt_get r ''todo_id'')
               \<or> \<not> nullish (opt_get r ''_id''))
        \<longrightarrow> normalizeTodo r \<in> set (todos (refresh s (Inr (JArr a xs))))
            \<and> \<not> nullish (todo_id (normalizeTodo r))
            \<and> error (refresh s (Inr (JArr a xs))) = JNull)"
proof -
  have fields: "nullish (opt_get r ''title'') \<and> nullish (opt_get r ''text'')
        \<longrightarrow> title (normalizeTodo r) = JStr []"
    "nullish (opt_get r ''title'') \<and> \<not> nullish (opt_get r ''text'')
        \<longrightarrow> title (normalizeTodo r) = opt_get r ''text''"
    "nullish (opt_get r ''completed'') \<and> nullish (opt_get r ''is_completed'')
          \<and> nullish (opt_get r ''done'') \<longrightarrow> \<not> completed (normalizeTodo r)"
    by (auto simp add: normalizeTodo_def coalesce_def nullish_iff)
  have fixed: "normalizeTodo JNull = \<lparr> todo_id = JUndefined, title = JStr [], completed = False, raw = JNull \<rparr>"
    "normalizeTodo JUndefined
       = \<lparr> todo_id = JUndefined, title = JStr [], completed = False, raw = JUndefined \<rparr>"
    "raw (normalizeTodo r) = r"
    by (simp_all add: normalizeTodo_def coalesce_def opt_get_def)
  have shown: "todos (refresh s (Inr (JArr a xs))) = filter has_id (map normalizeTodo xs)"
    "error (refresh s (Inr (JArr a xs))) = JNull"
    by (simp_all add: refresh_array)
  have ident: "nullish (todo_id (normalizeTodo r))
      \<longleftrightarrow> nullish (opt_get r ''id'') \<and> nullish (opt_get r ''todo_id'') \<and> nullish (opt_get r ''_id'')"
    by (simp add: normalizeTodo_def coalesce_def)
  have absent: "nullish (opt_get r ''id'') \<and> nullish (opt_get r ''todo_id'') \<and> nullish (opt_get r ''_id'')
        \<longrightarrow> nullish (todo_id (normalizeTodo r))
            \<and> normalizeTodo r \<notin> set (todos (refresh s (Inr (JArr a xs))))"
    by (simp add: shown has_id_iff ident)
  have present: "r \<in> set xs
          \<and> (\<not> nullish (opt_get r ''id'') \<or> \<not> nullish (opt_get r ''todo_id'')
               \<or> \<not> nullish (opt_get r ''_id''))
        \<longrightarrow> normalizeTodo r \<in> set (todos (refresh s (Inr (JArr a xs))))
            \<and> \<not> nullish (todo_id (normalizeTodo r))
            \<and> error (refresh s (Inr (JArr a xs))) = JNull"
    by (auto simp add: shown has_id_iff ident)
  from fields fixed absent present show ?thesis by blast
qed

text \<open>
  Claim C10, amended, at a listed array that holds \<open>null\<close> and a record with only a
  \<open>todo_id\<close>, and at the record with an \<open>id\<close> and a \<open>text\<close>.
\<close>

theorem normalizeTodo_total_witness:
  "rec_alt \<in> set [JNull, rec_alt]
   \<and> \<not> nullish (opt_get (rec_alt) ''todo_id'')
   \<and> nullish (opt_get (rec_alt) ''title'')
   \<and> nullish (opt_get (rec_alt) ''text'')
   \<and> normalizeTodo (rec_alt)
       \<in> set (todos (refresh initial_state (Inr (JArr 2 [JNull, rec_alt]))))
   \<and> normalizeTodo JNull
       \<notin> set (todos (refresh initial_state (Inr (JArr 2 [JNull, rec_alt]))))
   \<and> error (refresh initial_state (Inr (JArr 2 [JNull, rec_alt]))) = JNull
   \<and> title (normalizeTodo (rec_alt)) = JStr []
   \<and> \<not> completed (normalizeTodo (rec_alt))
   \<and> \<not> nullish (opt_get rec_text ''text'')
   \<and> title (normalizeTodo rec_text) = JStr ''hello''
   \<and> normalizeTodo rec_text \<in> set (todos (refresh initial_state (Inr (JArr 10 [rec_text]))))"
proof -
  have g: "opt_get (rec_alt) ''todo_id'' = JNum 7"
    "opt_get (rec_alt) ''title'' = JUndefined"
    "opt_get (rec_alt) ''text'' = JUndefined"
    "opt_get (rec_alt) ''completed'' = JUndefined"
    "opt_get (rec_alt) ''is_completed'' = JUndefined"
    "opt_get (rec_alt) ''done'' = JUndefined"
    "opt_get JNull k = JUndefined"
    "opt_get rec_text ''id'' = JNum 1" "opt_get rec_text ''title'' = JUndefined"
    "opt_get rec_text ''text'' = JStr ''hello''" for k
    by (simp_all add: opt_get_def rec_text_def rec_alt_def)
  from normalizeTodo_total [of "rec_alt" initial_state 2
      "[JNull, rec_alt]"]
  have w1: "normalizeTodo (rec_alt)
       \<in> set (todos (refresh initial_state (Inr (JArr 2 [JNull, rec_alt]))))"
    "error (refresh initial_state (Inr (JArr 2 [JNull, rec_alt]))) = JNull"
    "title (normalizeTodo (rec_alt)) = JStr []"
    "\<not> completed (normalizeTodo (rec_alt))"
    by (simp_all add: g)
  from normalizeTodo_total [of JNull initial_state 2 "[JNull, rec_alt]"]
  have w2: "normalizeTodo JNull
       \<notin> set (todos (refresh initial_state (Inr (JArr 2 [JNull, rec_alt]))))"
    by (auto simp add: g)
  from normalizeTodo_total [of rec_text initial_state 10 "[rec_text]"]
  have w3: "title (normalizeTodo rec_text) = JStr ''hello''"
    "normalizeTodo rec_text \<in> set (todos (refresh initial_state (Inr (JArr 10 [rec_text]))))"
    by (simp_all add: g)
  show ?thesis
    by (simp add: w1 w2 w3 g)
qed

subsection \<open>Add\<close>

text \<open>
  Claim C6: with a title that is not empty once trimmed, the part of \<open>handleAdd\<close>
  before the \<open>await\<close> puts exactly one placeholder in front of the list, with the
  trimmed title, not completed, and the temporary identifier \<open>temp-\<close> followed by
  the clock's reading. The update that follows a created record keeps the length of
  whatever list is current and replaces, at every index, exactly the entries whose
  identifier is the temporary one by the normalized record. With nothing in
  between, the operation sends one create request and leaves the normalized record
  where the placeholder was, in front of the old list.
\<close>

theorem handleAdd_placeholder:
  assumes "trim (newTitle s) \<noteq> []"
  shows "todos (handleAdd_begin s now)
           = \<lparr> todo_id = JStr (''temp-'' @ show_nat now), title = JStr (trim (newTitle s)),
               completed = False, raw = JNull \<rparr> # todos s
     \<and> length (todos (handleAdd_created s' now created)) = length (todos s')
     \<and> (\<forall>i<length (todos s').
           todos (handleAdd_created s' now created) ! i
             = (if strict_eq (todo_id (todos s' ! i)) (JStr (''temp-'' @ show_nat now))
                then normalizeTodo created else todos s' ! i))
     \<and> handleAdd s now (Inr created) list_out
           = (handleAdd_created (handleAdd_begin s now) now created, [POST_todos (trim (newTitle s))])
     \<and> todos (handleAdd_created (handleAdd_begin s now) now created)
           = normalizeTodo created
             # map (\<lambda>t. if strict_eq (todo_id t) (JStr (''temp-'' @ show_nat now))
                        then normalizeTodo created else t) (todos s)"
  using assms
  by (simp add: handleAdd_def handleAdd_begin_def handleAdd_created_def optimistic_def tempId_def Let_def)

text \<open>Claim C6 at the three listed tasks, the input \<open>" Buy milk "\<close> and a created record
  with identifier 42.\<close>

theorem handleAdd_placeholder_witness:
  "trim (newTitle (loaded \<lparr> newTitle := '' Buy milk '' \<rparr>)) \<noteq> []
   \<and> todos (handleAdd_begin (loaded \<lparr> newTitle := '' Buy milk '' \<rparr>) 5)
       = [\<lparr> todo_id = JStr ''temp-5'', title = JStr ''Buy milk'', completed = False, raw = JNull \<rparr>,
          task1, task2, task3]
   \<and> todos (fst (handleAdd (loaded \<lparr> newTitle := '' Buy milk '' \<rparr>) 5
         (Inr (JObj 14 [(''id'', JNum 42), (''title'', JStr ''Buy milk''), (''completed'', JBool False)]))
         (Inr JNull)))
       = [\<lparr> todo_id = JNum 42, title = JStr ''Buy milk'', completed = False,
            raw = JObj 14 [(''id'', JNum 42), (''title'', JStr ''Buy milk''), (''completed'', JBool False)] \<rparr>,
          task1, task2, task3]
   \<and> snd (handleAdd (loaded \<lparr> newTitle := '' Buy milk '' \<rparr>) 5
         (Inr (JObj 14 [(''id'', JNum 42), (''title'', JStr ''Buy milk''), (''completed'', JBool False)]))
         (Inr JNull))
       = [POST_todos ''Buy milk'']"
proof -
  have t: "trim '' Buy milk '' = ''Buy milk''"
    by (simp add: trim_def is_space_def)
  have n: "show_nat 5 = ''5''"
    by (simp add: show_nat.simps digit_char_def)
  have l: "todos (loaded \<lparr> newTitle := '' Buy milk '' \<rparr>) = [task1, task2, task3]"
    by (simp add: loaded_def)
  have i: "todo_id task1 = JNum 1" "todo_id task2 = JNum 2" "todo_id task3 = JNum 3"
    by (simp_all add: task1_def task2_def task3_def)
  have c: "normalizeTodo (JObj 14 [(''id'', JNum 42), (''title'', JStr ''Buy milk''), (''completed'', JBool False)])
       = \<lparr> todo_id = JNum 42, title = JStr ''Buy milk'', completed = False,
            raw = JObj 14 [(''id'', JNum 42), (''title'', JStr ''Buy milk''), (''completed'', JBool False)] \<rparr>"
    by (simp add: normalizeTodo_def opt_get_def coalesce_def)
  have h: "trim (newTitle (loaded \<lparr> newTitle := '' Buy milk '' \<rparr>)) \<noteq> []"
    by (simp add: t)
  from handleAdd_placeholder [OF h, of 5 loaded
      "JObj 14 [(''id'', JNum 42), (''title'', JStr ''Buy milk''), (''completed'', JBool False)]" "Inr JNull"]
  show ?thesis
    using h by (simp add: t n l i c)
qed

text \<open>
  Claim C9: \<open>handleAdd\<close> with a title that is empty once trimmed, and \<open>saveEdit\<close> with
  an edited title that is empty once trimmed, return the state they were given and
  send nothing: the list, the banner and the edit mode are as before.
\<close>

theorem empty_title_is_noop:
  "(trim (newTitle s) = [] \<longrightarrow> handleAdd s now create_out list_out = (s, []))
   \<and> (editingTitle s = JStr et \<and> trim et = [] \<longrightarrow> saveEdit s t update_out list_out' = Inr (s, []))"
  by (simp add: handleAdd_def saveEdit_def)

text \<open>Claim C9 at a title of three spaces and an edited title of one space.\<close>

theorem empty_title_is_noop_witness:
  "trim (newTitle (loaded \<lparr> newTitle := ''   '' \<rparr>)) = []
   \<and> handleAdd (loaded \<lparr> newTitle := ''   '' \<rparr>) 5 (Inr rec1) (Inr JNull)
       = (loaded \<lparr> newTitle := ''   '' \<rparr>, [])
   \<and> editingTitle (loaded \<lparr> editingId := JNum 1, editingTitle := JStr '' '' \<rparr>) = JStr '' ''
   \<and> trim '' '' = []
   \<and> saveEdit (loaded \<lparr> editingId := JNum 1, editingTitle := JStr '' '' \<rparr>) task1 (Inr rec1) (Inr JNull)
       = Inr (loaded \<lparr> editingId := JNum 1, editingTitle := JStr '' '' \<rparr>, [])"
  using empty_title_is_noop [of "loaded \<lparr> newTitle := ''   '' \<rparr>" 5 "Inr rec1" "Inr JNull"]
        empty_title_is_noop [of "loaded \<lparr> editingId := JNum 1, editingTitle := JStr '' '' \<rparr>" _ _ _ "'' ''" task1 "Inr rec1" "Inr JNull"]
  by (simp add: trim_def is_space_def)

subsection \<open>Delete\<close>

text \<open>
  Claim C5 at the task with the identifier 0: it is in the list and has an
  identifier in the sense of the filter of \<open>refresh\<close>, yet \<open>handleDelete\<close> leaves it in
  the list and sends nothing, whether the request would succeed or fail: the guard
  \<open>!todo?.id\<close> stops the operation.
\<close>

theorem delete_keeps_task_with_identifier_zero:
  "task0 \<in> set (todos listed0)
   \<and> has_id task0
   \<and> handleDelete listed0 task0 (Inr JNull) = (listed0, [])
   \<and> handleDelete listed0 task0 (Inl error500) = (listed0, [])"
  by (simp add: handleDelete_def ids has_id_def listed0_def)

text \<open>
  What holds of claim C5: for a task of the list whose identifier passes the guard
  of \<open>handleDelete\<close>, the part before the \<open>await\<close> removes it (the list is the old one
  without the entries of that identifier), and one delete request is sent. When
  the request fails, the list is the list from before the operation, every entry at
  its index, and the banner shows the failure.
\<close>

theorem handleDelete_rollback:
  assumes "truthy (todo_id t)" and "t \<in> set (todos s)"
  shows "t \<notin> set (todos (handleDelete_begin s t))
     \<and> todos (handleDelete_begin s t) = filter (\<lambda>x. \<not> strict_eq (todo_id x) (todo_id t)) (todos s)
     \<and> fst (handleDelete s t (Inr d)) = setSaving (todo_id t) False (handleDelete_begin s t)
     \<and> todos (fst (handleDelete s t (Inl e))) = todos s
     \<and> error (fst (handleDelete s t (Inl e))) = toErrorMessage e
     \<and> snd (handleDelete s t (Inl e)) = [DELETE_todos (todo_id t)]
     \<and> snd (handleDelete s t (Inr d)) = [DELETE_todos (todo_id t)]"
  using assms by (simp add: handleDelete_def handleDelete_begin_def Let_def)

text \<open>The rollback at the second of the three listed tasks and a failed request.\<close>

theorem handleDelete_rollback_witness:
  "truthy (todo_id task2) \<and> task2 \<in> set (todos loaded)
   \<and> todos (handleDelete_begin loaded task2) = [task1, task3]
   \<and> todos (fst (handleDelete loaded task2 (Inl (TErr (new_Error ''Failed to fetch''))))) = [task1, task2, task3]
   \<and> error (fst (handleDelete loaded task2 (Inl (TErr (new_Error ''Failed to fetch''))))) = JStr ''Failed to fetch''
   \<and> snd (handleDelete loaded task2 (Inl (TErr (new_Error ''Failed to fetch'')))) = [DELETE_todos (JNum 2)]"
proof -
  have i: "todo_id task1 = JNum 1" "todo_id task2 = JNum 2" "todo_id task3 = JNum 3"
    by (simp_all add: task1_def task2_def task3_def)
  have l: "todos loaded = [task1, task2, task3]"
    by (simp add: loaded_def)
  have h: "truthy (todo_id task2)" "task2 \<in> set (todos loaded)"
    by (simp_all add: i l)
  from handleDelete_rollback [OF h, of JNull "TErr (new_Error ''Failed to fetch'')"]
  show ?thesis
    using h by (simp add: i l new_Error_def js_or_def)
qed

subsection \<open>Refresh and the shapes of a list\<close>

text \<open>
  Against claim C2 as it is written: a response \<open>{}\<close>, and a response that carries
  the tasks under \<open>data\<close>, are returned by \<open>listTodos\<close> as they are, with no error,
  and \<open>refresh\<close> takes each for an empty list: the three tasks shown before are gone
  and the banner stays hidden.
\<close>

theorem unknown_shape_is_accepted_silently:
  "listTodos (Answers 120 \<lparr> res_status = 200, content_type = Some ''application/json'',
                            text_result = Inr ''{}'', json_result = Inr (JObj 16 []) \<rparr> 130)
     = Inr (JObj 16 [])
   \<and> refresh loaded (Inr (JObj 16 [])) = loaded \<lparr> todos := [] \<rparr>
   \<and> refresh loaded (Inr (JObj 17 [(''data'', JArr 10 [rec1, rec2, rec3])])) = loaded \<lparr> todos := [] \<rparr>
   \<and> error (loaded \<lparr> todos := [] \<rparr>) = JNull
   \<and> listTodos (Answers 120 data_response 130) = Inr (JObj 17 [(''data'', JArr 10 [rec1, rec2, rec3])])
   \<and> refresh loaded (listTodos (Answers 120 data_response 130)) = loaded \<lparr> todos := [] \<rparr>"
proof -
  have f: "listTodos (Answers 120 \<lparr> res_status = 200, content_type = Some ''application/json'',
                            text_result = Inr ''{}'', json_result = Inr (JObj 16 []) \<rparr> 130)
     = Inr (JObj 16 [])"
    by (simp add: listTodos_def fetchJson_def await_fetch_def await_json_def DEFAULT_TIMEOUT_MS_def
        is_json ok_def)
  have d: "listTodos (Answers 120 data_response 130) = Inr (JObj 17 [(''data'', JArr 10 [rec1, rec2, rec3])])"
    by (simp add: listTodos_def fetchJson_def await_fetch_def await_json_def DEFAULT_TIMEOUT_MS_def
        data_in ok_def data_response_def)
  have r1: "refresh loaded (Inr (JObj 16 [])) = loaded \<lparr> todos := [] \<rparr>"
    by (simp add: refresh_def refresh_begin_def refresh_end_def opt_get_def js_or_def
        loaded_def initial_state_def)
  have r2: "refresh loaded (Inr (JObj 17 [(''data'', JArr 10 [rec1, rec2, rec3])])) = loaded \<lparr> todos := [] \<rparr>"
    by (simp add: refresh_def refresh_begin_def refresh_end_def opt_get_def js_or_def
        loaded_def initial_state_def)
  from f d r1 r2 show ?thesis
    by (simp add: loaded_fields)
qed

text \<open>
  Claim C2, amended: \<open>refresh\<close> takes a bare array, and a response that is not an
  array whose first truthy value among \<open>items\<close> and \<open>todos\<close> is an array: the list is
  then the normalized entries that have an identifier, in their order, and no error
  is shown. A response that is not an array and has no truthy \<open>items\<close> or \<open>todos\<close> is
  taken for the empty list, with no error. Only a response whose first truthy value
  among \<open>items\<close> and \<open>todos\<close> is not an array ends in an error, the one thrown by
  \<open>arr.map\<close>, and leaves the list as it was. \<open>listTodos\<close> looks at no shape: of a
  response with a status in 200..299 whose head and body arrive before the timer
  fires it returns the parsed value when the content type is JSON and the body
  parses, and the text otherwise when the text can be read.
\<close>

theorem refresh_wire_shapes:
  "(res = JArr a xs \<longrightarrow>
      refresh s (Inr res)
        = s\<lparr> error := JNull, todos := filter has_id (map normalizeTodo xs), initialLoading := False \<rparr>)
   \<and> (\<not> isArray res \<and> js_or (opt_get res ''items'') (opt_get res ''todos'') = JArr a xs \<longrightarrow>
      refresh s (Inr res)
        = s\<lparr> error := JNull, todos := filter has_id (map normalizeTodo xs), initialLoading := False \<rparr>)
   \<and> (\<not> isArray res \<and> \<not> truthy (opt_get res ''items'') \<and> \<not> truthy (opt_get res ''todos'') \<longrightarrow>
      refresh s (Inr res) = s\<lparr> error := JNull, todos := [], initialLoading := False \<rparr>)
   \<and> (\<not> isArray res \<and> truthy (js_or (opt_get res ''items'') (opt_get res ''todos''))
        \<and> \<not> isArray (js_or (opt_get res ''items'') (opt_get res ''todos'')) \<longrightarrow>
      refresh s (Inr res)
        = s\<lparr> error := JStr ''arr.map is not a function'', initialLoading := False \<rparr>)
   \<and> (th < DEFAULT_TIMEOUT_MS \<and> tb < DEFAULT_TIMEOUT_MS \<and> ok rsp
        \<and> str_includes (case content_type rsp of None \<Rightarrow> [] | Some c \<Rightarrow> c) ''application/json''
        \<and> json_result rsp = Inr v \<longrightarrow>
      listTodos (Answers th rsp tb) = Inr v)
   \<and> (th < DEFAULT_TIMEOUT_MS \<and> tb < DEFAULT_TIMEOUT_MS \<and> ok rsp
        \<and> \<not> str_includes (case content_type rsp of None \<Rightarrow> [] | Some c \<Rightarrow> c) ''application/json''
        \<and> text_result rsp = Inr body \<longrightarrow>
      listTodos (Answers th rsp tb) = Inr (JStr body))"
proof -
  let ?pick = "js_or (opt_get res ''items'') (opt_get res ''todos'')"
  have a1: "res = JArr a xs \<longrightarrow>
      refresh s (Inr res)
        = s\<lparr> error := JNull, todos := filter has_id (map normalizeTodo xs), initialLoading := False \<rparr>"
    by (simp add: refresh_def refresh_begin_def refresh_end_def)
  have a2: "\<not> isArray res \<and> ?pick = JArr a xs \<longrightarrow>
      refresh s (Inr res)
        = s\<lparr> error := JNull, todos := filter has_id (map normalizeTodo xs), initialLoading := False \<rparr>"
    by (simp add: refresh_def refresh_begin_def refresh_end_def js_or_def)
  have a3: "\<not> isArray res \<and> \<not> truthy (opt_get res ''items'') \<and> \<not> truthy (opt_get res ''todos'') \<longrightarrow>
      refresh s (Inr res) = s\<lparr> error := JNull, todos := [], initialLoading := False \<rparr>"
    by (simp add: refresh_def refresh_begin_def refresh_end_def js_or_def)
  have a4: "\<not> isArray res \<and> truthy ?pick \<and> \<not> isArray ?pick \<longrightarrow>
      refresh s (Inr res)
        = s\<lparr> error := JStr ''arr.map is not a function'', initialLoading := False \<rparr>"
  proof (intro impI, elim conjE)
    assume n: "\<not> isArray res" and t: "truthy ?pick" and na: "\<not> isArray ?pick"
    have arr: "(if isArray res then res else js_or ?pick (JArr 0 [])) = ?pick"
      using n t by (simp add: js_or_def)
    show "refresh s (Inr res)
        = s\<lparr> error := JStr ''arr.map is not a function'', initialLoading := False \<rparr>"
      using na unfolding refresh_def refresh_begin_def refresh_end_def
      by (cases ?pick) (simp_all add: arr Let_def TypeError_map_def js_or_def)
  qed
  have a5: "th < DEFAULT_TIMEOUT_MS \<and> tb < DEFAULT_TIMEOUT_MS \<and> ok rsp
        \<and> str_includes (case content_type rsp of None \<Rightarrow> [] | Some c \<Rightarrow> c) ''application/json''
        \<and> json_result rsp = Inr v \<longrightarrow>
      listTodos (Answers th rsp tb) = Inr v"
    by (simp add: listTodos_def fetchJson_def await_fetch_def await_json_def)
  have a6: "th < DEFAULT_TIMEOUT_MS \<and> tb < DEFAULT_TIMEOUT_MS \<and> ok rsp
        \<and> \<not> str_includes (case content_type rsp of None \<Rightarrow> [] | Some c \<Rightarrow> c) ''application/json''
        \<and> text_result rsp = Inr body \<longrightarrow>
      listTodos (Answers th rsp tb) = Inr (JStr body)"
    by (simp add: listTodos_def fetchJson_def await_fetch_def await_text_def)
  from a1 a2 a3 a4 a5 a6 show ?thesis by blast
qed

text \<open>Claim C2, amended, at a bare array, at the same array under \<open>items\<close> and under
  \<open>todos\<close>, at a text body and at an object whose \<open>items\<close> is a number, and at two
  responses in time, one JSON and one text.\<close>

theorem refresh_wire_shapes_witness:
  "refresh initial_state (Inr (JArr 10 [rec1, rec2, rec3])) = loaded
   \<and> \<not> isArray (JObj 18 [(''items'', JArr 10 [rec1, rec2, rec3])])
   \<and> refresh initial_state (Inr (JObj 18 [(''items'', JArr 10 [rec1, rec2, rec3])])) = loaded
   \<and> refresh initial_state (Inr (JObj 19 [(''todos'', JArr 10 [rec1, rec2, rec3])])) = loaded
   \<and> \<not> truthy (opt_get (JStr ''ok'') ''items'') \<and> \<not> truthy (opt_get (JStr ''ok'') ''todos'')
   \<and> todos (refresh loaded (Inr (JStr ''ok''))) = []
   \<and> error (refresh loaded (Inr (JStr ''ok''))) = JNull
   \<and> truthy (js_or (opt_get (JObj 20 [(''items'', JNum 3)]) ''items'')
                    (opt_get (JObj 20 [(''items'', JNum 3)]) ''todos''))
   \<and> todos (refresh loaded (Inr (JObj 20 [(''items'', JNum 3)]))) = [task1, task2, task3]
   \<and> error (refresh loaded (Inr (JObj 20 [(''items'', JNum 3)]))) = JStr ''arr.map is not a function''
   \<and> 120 < DEFAULT_TIMEOUT_MS \<and> 130 < DEFAULT_TIMEOUT_MS
   \<and> ok (list_response 200) \<and> ok text_response
   \<and> listTodos (Answers 120 (list_response 200) 130) = Inr (JArr 10 [rec1, rec2, rec3])
   \<and> listTodos (Answers 120 text_response 130) = Inr (JStr ''ok'')"
proof -
  have tm: "120 < DEFAULT_TIMEOUT_MS" "130 < DEFAULT_TIMEOUT_MS"
    by (simp_all add: DEFAULT_TIMEOUT_MS_def)
  have oks: "ok (list_response 200)" "ok text_response"
    by (simp_all add: ok_def list_response_def text_response_def)
  have c: "content_type (list_response 200) = Some ''application/json''"
    "json_result (list_response 200) = Inr (JArr 10 [rec1, rec2, rec3])"
    "content_type text_response = Some ''text/plain''"
    "text_result text_response = Inr ''ok''"
    by (simp_all add: list_response_def text_response_def)
  have n: "\<not> str_includes ''text/plain'' ''application/json''"
    by simp
  from refresh_wire_shapes [where th = 120 and tb = 130 and rsp = "list_response 200"
      and v = "JArr 10 [rec1, rec2, rec3]"]
  have w6: "listTodos (Answers 120 (list_response 200) 130) = Inr (JArr 10 [rec1, rec2, rec3])"
    by (simp add: tm oks c is_json)
  from refresh_wire_shapes [where th = 120 and tb = 130 and rsp = text_response and body = "''ok''"]
  have w7: "listTodos (Answers 120 text_response 130) = Inr (JStr ''ok'')"
    by (simp add: tm oks c n)
  have l: "initial_state \<lparr> error := JNull, todos := [task1, task2, task3], initialLoading := False \<rparr> = loaded"
    by (simp add: loaded_def initial_state_def)
  have g1: "js_or (opt_get (JObj 18 [(''items'', JArr 10 [rec1, rec2, rec3])]) ''items'')
                 (opt_get (JObj 18 [(''items'', JArr 10 [rec1, rec2, rec3])]) ''todos'')
            = JArr 10 [rec1, rec2, rec3]"
    by (simp add: opt_get_def js_or_def)
  have g2: "js_or (opt_get (JObj 19 [(''todos'', JArr 10 [rec1, rec2, rec3])]) ''items'')
                 (opt_get (JObj 19 [(''todos'', JArr 10 [rec1, rec2, rec3])]) ''todos'')
            = JArr 10 [rec1, rec2, rec3]"
    by (simp add: opt_get_def js_or_def)
  have g3: "\<not> truthy (opt_get (JStr ''ok'') ''items'')" "\<not> truthy (opt_get (JStr ''ok'') ''todos'')"
    by (simp_all add: opt_get_def)
  have g4: "js_or (opt_get (JObj 20 [(''items'', JNum 3)]) ''items'')
                 (opt_get (JObj 20 [(''items'', JNum 3)]) ''todos'') = JNum 3"
    by (simp add: opt_get_def js_or_def)
  from refresh_wire_shapes [of "JArr 10 [rec1, rec2, rec3]" 10 "[rec1, rec2, rec3]" initial_state]
  have w1: "refresh initial_state (Inr (JArr 10 [rec1, rec2, rec3])) = loaded"
    by (simp add: normalize_samples has_id_samples l)
  from refresh_wire_shapes [of "JObj 18 [(''items'', JArr 10 [rec1, rec2, rec3])]" 10 "[rec1, rec2, rec3]" initial_state]
  have w2: "refresh initial_state (Inr (JObj 18 [(''items'', JArr 10 [rec1, rec2, rec3])])) = loaded"
    by (simp add: normalize_samples has_id_samples l g1)
  from refresh_wire_shapes [of "JObj 19 [(''todos'', JArr 10 [rec1, rec2, rec3])]" 10 "[rec1, rec2, rec3]" initial_state]
  have w3: "refresh initial_state (Inr (JObj 19 [(''todos'', JArr 10 [rec1, rec2, rec3])])) = loaded"
    by (simp add: normalize_samples has_id_samples l g2)
  from refresh_wire_shapes [of "JStr ''ok''" 0 "[]" loaded]
  have w4: "refresh loaded (Inr (JStr ''ok'')) = loaded \<lparr> error := JNull, todos := [], initialLoading := False \<rparr>"
    by (simp add: g3)
  from refresh_wire_shapes [of "JObj 20 [(''items'', JNum 3)]" 0 "[]" loaded]
  have w5: "refresh loaded (Inr (JObj 20 [(''items'', JNum 3)]))
      = loaded \<lparr> error := JStr ''arr.map is not a function'', initialLoading := False \<rparr>"
    by (simp add: g4)
  show ?thesis
    by (simp add: w1 w2 w3 w4 w5 w6 w7 g3 g4 tm oks loaded_fields)
qed

subsection \<open>The timeout of the request client\<close>

text \<open>
  What holds of claim C7: a request whose head has not arrived when the timer fires,
  and one whose text body has not ended by then, throw the timeout error, which has
  no status; a response in time with a status outside 200..299 throws an error that
  carries the status. A JSON body that has not ended when the timer fires is
  another matter: the rejection of \<open>res.json()\<close> is caught and turned into \<open>null\<close>.
\<close>

lemma rethrow_AbortError:
  "rethrow AbortError = TErr (new_Error ''Request timed out. Please try again.'')"
  by (simp add: rethrow_def AbortError_def)

lemma fetchJson_head_late:
  "DEFAULT_TIMEOUT_MS \<le> t1 \<Longrightarrow>
   fetchJson (Answers t1 res t2) = Inl (TErr (new_Error ''Request timed out. Please try again.''))"
  by (simp add: fetchJson_def await_fetch_def rethrow_AbortError)

lemma fetchJson_text_body_late:
  "t1 < DEFAULT_TIMEOUT_MS \<Longrightarrow> DEFAULT_TIMEOUT_MS \<le> t2 \<Longrightarrow>
   \<not> str_includes (case content_type res of None \<Rightarrow> [] | Some c \<Rightarrow> c) ''application/json'' \<Longrightarrow>
   fetchJson (Answers t1 res t2) = Inl (TErr (new_Error ''Request timed out. Please try again.''))"
  by (simp add: fetchJson_def await_fetch_def await_text_def rethrow_AbortError)

lemma fetchJson_timeout_has_no_status:
  "status (new_Error ''Request timed out. Please try again.'') = None"
  by (simp add: new_Error_def)

lemma fetchJson_json_body_late:
  "t1 < DEFAULT_TIMEOUT_MS \<Longrightarrow> DEFAULT_TIMEOUT_MS \<le> t2 \<Longrightarrow>
   str_includes (case content_type res of None \<Rightarrow> [] | Some c \<Rightarrow> c) ''application/json'' \<Longrightarrow>
   ok res \<Longrightarrow> fetchJson (Answers t1 res t2) = Inr JNull"
  by (simp add: fetchJson_def await_fetch_def await_json_def)

lemma fetchJson_status_error:
  assumes "t1 < DEFAULT_TIMEOUT_MS" and "t2 < DEFAULT_TIMEOUT_MS" and "\<not> ok res"
    and "text_result res = Inr t" and "json_result res = Inr j"
  shows "\<exists>e. fetchJson (Answers t1 res t2) = Inl (TErr e) \<and> status e = Some (res_status res)"
  using assms
  by (simp add: fetchJson_def await_fetch_def await_json_def await_text_def rethrow_def new_Error_def Let_def)

text \<open>
  Claim C7 at a response whose head comes after 120 ms with
  \<open>content-type: application/json\<close> and whose body would end after 20 s: with
  status 200 \<open>fetchJson\<close> returns \<open>null\<close> and throws nothing, and \<open>refresh\<close> empties the
  list without a word; with status 500 it throws the error of the status, not the
  timeout error.
\<close>

theorem stalled_json_body_is_no_timeout:
  "fetchJson (Answers 120 (list_response 200) 20000) = Inr JNull
   \<and> fetchJson (Answers 120 (list_response 500) 20000)
       = Inl (TErr \<lparr> name = ''Error'', message = ''Request failed with status 500'',
                      status = Some 500, payload = Some JNull \<rparr>)
   \<and> todos (refresh loaded (listTodos (Answers 120 (list_response 200) 20000))) = []
   \<and> error (refresh loaded (listTodos (Answers 120 (list_response 200) 20000))) = JNull"
proof -
  have a: "await_fetch (Answers 120 (list_response st) 20000) = Inr (list_response st)" for st
    by (simp add: await_fetch_def DEFAULT_TIMEOUT_MS_def)
  have b: "await_json (Answers 120 (list_response st) 20000) = Inl AbortError" for st
    by (simp add: await_json_def DEFAULT_TIMEOUT_MS_def)
  have c: "content_type (list_response st) = Some ''application/json''"
    "res_status (list_response st) = st" for st
    by (simp_all add: list_response_def)
  have f200: "fetchJson (Answers 120 (list_response 200) 20000) = Inr JNull"
    by (simp add: fetchJson_def a b c is_json ok_def)
  have m: "failure_message JNull 500 = JStr ''Request failed with status 500''"
    by (simp add: failure_message_def js_or_def js_and_def show_500)
  have f500: "fetchJson (Answers 120 (list_response 500) 20000)
       = Inl (TErr \<lparr> name = ''Error'', message = ''Request failed with status 500'',
                      status = Some 500, payload = Some JNull \<rparr>)"
    by (simp add: fetchJson_def a b c is_json ok_def m rethrow_def new_Error_def)
  have r: "refresh loaded (Inr JNull) = loaded \<lparr> error := JNull, todos := [], initialLoading := False \<rparr>"
    by (simp add: refresh_def refresh_begin_def refresh_end_def opt_get_def js_or_def)
  show ?thesis
    by (simp add: f200 f500 listTodos_def r)
qed

subsection \<open>Identifiers\<close>

lemma handleToggle_truthy:
  "truthy (todo_id t) \<Longrightarrow>
   handleToggle s t (Inr u) list_out
     = (setSaving (todo_id t) False (handleToggle_begin s t),
        [PUT_todos (todo_id t) [(''completed'', JBool (\<not> completed t))]])"
  by (simp add: handleToggle_def Let_def)

text \<open>
  Claim C4 at a record with the identifier 0: \<open>refresh\<close> lists it, and for the task
  it displays \<open>handleToggle\<close> and \<open>handleDelete\<close> return the state they were given
  and send no request.
\<close>

theorem falsy_identifier_stops_toggle_and_delete:
  "refresh initial_state (Inr (JArr 10 [rec0])) = listed0
   \<and> todos listed0 = [task0]
   \<and> todo_id task0 = JNum 0
   \<and> handleToggle listed0 task0 (Inr rec0) (Inr (JArr 10 [rec0])) = (listed0, [])
   \<and> handleDelete listed0 task0 (Inr JNull) = (listed0, [])"
proof -
  have n: "normalizeTodo rec0 = task0"
    by (simp add: normalizeTodo_def rec0_def task0_def opt_get_def coalesce_def)
  have h: "has_id task0"
    by (simp add: has_id_def ids)
  have r: "refresh initial_state (Inr (JArr 10 [rec0])) = listed0"
    by (simp add: refresh_array n h listed0_def initial_state_def)
  have l: "todos listed0 = [task0]"
    by (simp add: listed0_def)
  have t: "handleToggle listed0 task0 (Inr rec0) (Inr (JArr 10 [rec0])) = (listed0, [])"
    by (simp add: handleToggle_def ids)
  have d: "handleDelete listed0 task0 (Inr JNull) = (listed0, [])"
    by (simp add: handleDelete_def ids)
  from r l t d show ?thesis
    by (simp add: ids)
qed

text \<open>
  What holds of claim C8: every operation but the replacement of the placeholder
  keeps a list whose tasks all pass the filter of \<open>refresh\<close>, and the replacement
  keeps it when the created record has an identifier.
\<close>

lemma has_id_toggle:
  "list_all has_id (todos s) \<Longrightarrow> list_all has_id (todos (handleToggle_begin s t))"
  by (auto simp add: handleToggle_begin_def Let_def setSaving_def list_all_iff has_id_def)

lemma has_id_refresh:
  "list_all has_id (todos s) \<Longrightarrow> list_all has_id (todos (refresh s out))"
  by (cases out)
     (auto simp add: refresh_def refresh_begin_def refresh_end_def Let_def list_all_iff
        split: json.splits)

lemma has_id_saveEdit_begin:
  "list_all has_id (todos s) \<Longrightarrow> list_all has_id (todos (saveEdit_begin s t x))"
  by (auto simp add: saveEdit_begin_def Let_def setSaving_def list_all_iff has_id_def)

lemma has_id_handleDelete:
  "list_all has_id (todos s) \<Longrightarrow> list_all has_id (todos (fst (handleDelete s t out)))"
  by (cases out) (simp_all add: handleDelete_def handleDelete_begin_def Let_def setSaving_def list_all_iff)

lemma has_id_handleAdd_begin:
  "list_all has_id (todos s) \<Longrightarrow> list_all has_id (todos (handleAdd_begin s now))"
  by (simp add: handleAdd_begin_def optimistic_def tempId_def has_id_def)

lemma has_id_handleAdd_created:
  "list_all has_id (todos s) \<Longrightarrow> has_id (normalizeTodo created) \<Longrightarrow>
   list_all has_id (todos (handleAdd_created s now created))"
  by (auto simp add: handleAdd_created_def list_all_iff)

text \<open>
  Claim C8 at a created record without an identifier: the task that replaces the
  placeholder has the identifier \<open>undefined\<close> and stays in the list, in front of
  three tasks that have one.
\<close>

theorem created_record_without_identifier_is_listed:
  "list_all has_id (todos loaded)
   \<and> handleAdd (loaded \<lparr> newTitle := ''Buy milk'' \<rparr>) 5
         (Inr (JObj 15 [(''title'', JStr ''Buy milk''), (''completed'', JBool False)])) (Inr JNull)
       = (loaded \<lparr> todos :=
                     [\<lparr> todo_id = JUndefined, title = JStr ''Buy milk'', completed = False,
                        raw = JObj 15 [(''title'', JStr ''Buy milk''), (''completed'', JBool False)] \<rparr>,
                      task1, task2, task3] \<rparr>,
          [POST_todos ''Buy milk''])
   \<and> \<not> has_id \<lparr> todo_id = JUndefined, title = JStr ''Buy milk'', completed = False,
                  raw = JObj 15 [(''title'', JStr ''Buy milk''), (''completed'', JBool False)] \<rparr>"
proof -
  have n: "normalizeTodo (JObj 15 [(''title'', JStr ''Buy milk''), (''completed'', JBool False)])
      = \<lparr> todo_id = JUndefined, title = JStr ''Buy milk'', completed = False,
          raw = JObj 15 [(''title'', JStr ''Buy milk''), (''completed'', JBool False)] \<rparr>"
    by (simp add: normalizeTodo_def opt_get_def coalesce_def)
  have a: "list_all has_id (todos loaded)"
    by (simp add: loaded_fields has_id_samples)
  have b: "handleAdd (loaded \<lparr> newTitle := ''Buy milk'' \<rparr>) 5
         (Inr (JObj 15 [(''title'', JStr ''Buy milk''), (''completed'', JBool False)])) (Inr JNull)
       = (loaded \<lparr> todos :=
                     [\<lparr> todo_id = JUndefined, title = JStr ''Buy milk'', completed = False,
                        raw = JObj 15 [(''title'', JStr ''Buy milk''), (''completed'', JBool False)] \<rparr>,
                      task1, task2, task3] \<rparr>,
          [POST_todos ''Buy milk''])"
    by (simp add: handleAdd_def handleAdd_begin_def handleAdd_created_def Let_def trim_samples
        optimistic_def tempId_def ids n loaded_def initial_state_def)
  from a b show ?thesis
    by (simp add: has_id_def)
qed

subsection \<open>The banner after a failure\<close>

text \<open>
  Claim C1 at an update, a create and an edit that fail with status 500 while the
  list request that follows succeeds: each operation ends in the listed state, whose
  banner is hidden, since \<open>refresh\<close> starts by clearing the message that the handler
  has just set.
\<close>

theorem recovery_refresh_clears_the_failure:
  "toErrorMessage error500 = JStr ''Request failed with status 500''
   \<and> handleToggle loaded task1 (Inl error500) (Inr (JArr 10 [rec1, rec2, rec3]))
       = (loaded, [PUT_todos (JNum 1) [(''completed'', JBool True)], GET_todos])
   \<and> handleAdd (loaded \<lparr> newTitle := ''Buy milk'' \<rparr>) 5 (Inl error500) (Inr (JArr 10 [rec1, rec2, rec3]))
       = (loaded, [POST_todos ''Buy milk'', GET_todos])
   \<and> saveEdit (loaded \<lparr> editingId := JNum 1, editingTitle := JStr ''x'' \<rparr>) task1 (Inl error500)
         (Inr (JArr 10 [rec1, rec2, rec3]))
       = Inr (loaded \<lparr> editingId := JNum 1, editingTitle := JStr ''x'' \<rparr>,
              [PUT_todos (JNum 1) [(''title'', JStr ''x'')], GET_todos])
   \<and> error loaded = JNull"
proof -
  have m: "toErrorMessage error500 = JStr ''Request failed with status 500''"
    by (simp add: error500_def js_or_def)
  have toggle: "handleToggle loaded task1 (Inl error500) (Inr (JArr 10 [rec1, rec2, rec3]))
       = (loaded, [PUT_todos (JNum 1) [(''completed'', JBool True)], GET_todos])"
    by (simp add: handleToggle_def handleToggle_begin_def Let_def setSaving_def ids refresh_listed
        set_add_def set_delete_def loaded_def initial_state_def)
  have add: "handleAdd (loaded \<lparr> newTitle := ''Buy milk'' \<rparr>) 5 (Inl error500) (Inr (JArr 10 [rec1, rec2, rec3]))
       = (loaded, [POST_todos ''Buy milk'', GET_todos])"
    by (simp add: handleAdd_def handleAdd_begin_def Let_def trim_samples refresh_listed
        loaded_def initial_state_def)
  have edit: "saveEdit (loaded \<lparr> editingId := JNum 1, editingTitle := JStr ''x'' \<rparr>) task1 (Inl error500)
         (Inr (JArr 10 [rec1, rec2, rec3]))
       = Inr (loaded \<lparr> editingId := JNum 1, editingTitle := JStr ''x'' \<rparr>,
              [PUT_todos (JNum 1) [(''title'', JStr ''x'')], GET_todos])"
    by (simp add: saveEdit_def saveEdit_begin_def Let_def setSaving_def ids trim_samples refresh_listed
        set_add_def set_delete_def loaded_def initial_state_def)
  from m toggle add edit show ?thesis
    by (simp add: loaded_fields)
qed

end
